theory Spec2Isabelle
  imports Complex_Main
begin

section \<open>Exceptions and outcomes\<close>

text \<open>
  The exceptions \<open>bank_account_bugs.py\<close> can raise, each with its message, and the outcome
  of a call: a returned value or a raised exception. Every operation of the account returns
  its outcome together with the account as the call leaves it, so that what a failed call
  did to the account is part of the model.

  Amounts are Python floats in the source. They are modelled as real numbers: the
  arithmetic is exact, and rounding, infinities and NaN are outside the model.
\<close>

datatype error =
    AssertionError string
  | ValueError string
  | CheckError string
  | MoneyError

datatype 'a outcome = Return 'a | Raise error

section \<open>Money and Check\<close>

text \<open>
  Modelled from the spec: \<open>money.py\<close> and \<open>check.py\<close> are imported by the source and are
  not part of it. Money is an immutable amount; Check is a Money with a payee (a string
  that may be empty or absent) and a check number, the identity of the check.
\<close>

record Money =
  val :: real

record Check = Money +
  payee :: "string option"
  check_number :: string

text \<open>
  Modelled from the spec: the constructor \<open>Money(amount)\<close>, which fails on a negative amount.
\<close>

definition Money_new :: "real \<Rightarrow> Money outcome" where
  "Money_new amount = (if amount < 0 then Raise MoneyError else Return \<lparr>val = amount\<rparr>)"

text \<open>
  Modelled from the spec: equality of checks, which Python's \<open>in\<close> and \<open>list.remove\<close> use,
  is identity of the check, carried by the check number.
\<close>

definition check_eq :: "Check \<Rightarrow> Check \<Rightarrow> bool" where
  "check_eq a b = (check_number a = check_number b)"

text \<open>Python's \<open>check in checks\<close>.\<close>

definition check_in :: "Check \<Rightarrow> Check list \<Rightarrow> bool" where
  "check_in check checks = list_ex (\<lambda>x. check_eq x check) checks"

text \<open>
  Python's \<open>checks.remove(check)\<close>: the first equal element is removed; \<open>None\<close> where
  Python raises ValueError because there is none.
\<close>

fun list_remove :: "Check \<Rightarrow> Check list \<Rightarrow> Check list option" where
  "list_remove check [] = None"
| "list_remove check (x # xs) =
     (if check_eq x check then Some xs else map_option ((#) x) (list_remove check xs))"

text \<open>Python's truth value of \<open>check.payee\<close>: false for \<open>None\<close> and for the empty string.\<close>

fun truthy :: "string option \<Rightarrow> bool" where
  "truthy None = False"
| "truthy (Some s) = (s \<noteq> [])"

text \<open>\<open>str.lower()\<close>, on ASCII letters; every other character is left as it is.\<close>

definition lower_char :: "char \<Rightarrow> char" where
  "lower_char c =
     (case map_of (zip ''ABCDEFGHIJKLMNOPQRSTUVWXYZ'' ''abcdefghijklmnopqrstuvwxyz'') c of
        None \<Rightarrow> c
      | Some l \<Rightarrow> l)"

definition lower :: "string \<Rightarrow> string" where
  "lower s = map lower_char s"

text \<open>The argument of \<open>deposit\<close>: a Money that is, or is not, a Check (\<open>isinstance\<close>).\<close>

datatype deposit_arg = IsMoney Money | IsCheck Check

fun arg_value :: "deposit_arg \<Rightarrow> real" where
  "arg_value (IsMoney m) = val m"
| "arg_value (IsCheck c) = val c"

section \<open>The bug selector\<close>

definition BUG_CANT_WITHDRAW_AVAILABLE :: int where "BUG_CANT_WITHDRAW_AVAILABLE = 1"
definition BUG_WITHDRAW_FAILS_SILENTLY :: int where "BUG_WITHDRAW_FAILS_SILENTLY = 2"
definition BUG_DEPOSIT_ZERO :: int where "BUG_DEPOSIT_ZERO = 3"
definition BUG_CLEAR_ANY_CHECK :: int where "BUG_CLEAR_ANY_CHECK = 4"
definition BUG_DUPLICATE_CHECK :: int where "BUG_DUPLICATE_CHECK = 5"
definition BUG_DEPOSIT_ANY_PAYEE :: int where "BUG_DEPOSIT_ANY_PAYEE = 6"
definition BUG_BALANCE_EXCLUDES_HOLDS :: int where "BUG_BALANCE_EXCLUDES_HOLDS = 7"
definition NO_DEFECTS :: int where "NO_DEFECTS = 8"
definition BUG_AVAILABLE_BALANCE :: int where "BUG_AVAILABLE_BALANCE = 9"
definition BUG_MINIMUM_IS_IGNORED :: int where "BUG_MINIMUM_IS_IGNORED = 10"

text \<open>
  \<open>TESTCASE\<close> is a global of the module, set from the environment when an account is
  created (0 when the variable is unset). It is the first argument of everything that
  reads it.
\<close>

definition bug :: "int \<Rightarrow> int \<Rightarrow> bool" where
  "bug TESTCASE index = (index = TESTCASE)"

text \<open>The values of \<open>TESTCASE\<close> that select none of the bugs, such as 0 and \<open>NO_DEFECTS\<close>.\<close>

definition no_defects :: "int \<Rightarrow> bool" where
  "no_defects TESTCASE =
     (\<not> bug TESTCASE BUG_CANT_WITHDRAW_AVAILABLE \<and> \<not> bug TESTCASE BUG_WITHDRAW_FAILS_SILENTLY \<and>
      \<not> bug TESTCASE BUG_DEPOSIT_ZERO \<and> \<not> bug TESTCASE BUG_CLEAR_ANY_CHECK \<and>
      \<not> bug TESTCASE BUG_DUPLICATE_CHECK \<and> \<not> bug TESTCASE BUG_DEPOSIT_ANY_PAYEE \<and>
      \<not> bug TESTCASE BUG_BALANCE_EXCLUDES_HOLDS \<and> \<not> bug TESTCASE BUG_AVAILABLE_BALANCE \<and>
      \<not> bug TESTCASE BUG_MINIMUM_IS_IGNORED)"

section \<open>BankAccount\<close>

record BankAccount =
  acct_name :: string
  acct_balance :: real
  acct_min_balance :: real
  pending_checks :: "Check list"
  deposited_checks :: "Check list"

text \<open>\<open>__init__\<close>: the assertion on the minimum balance, then the fresh account.\<close>

definition init :: "string \<Rightarrow> real \<Rightarrow> BankAccount outcome" where
  "init name min_bal =
     (if \<not> min_bal \<ge> 0 then Raise (AssertionError ''min balance parameter must not be negative'')
      else Return \<lparr>acct_name = name, acct_balance = 0, acct_min_balance = min_bal,
                   pending_checks = [], deposited_checks = []\<rparr>)"

definition account_name :: "BankAccount \<Rightarrow> string" where
  "account_name self = acct_name self"

definition min_balance :: "BankAccount \<Rightarrow> real" where
  "min_balance self = acct_min_balance self"

definition available :: "int \<Rightarrow> BankAccount \<Rightarrow> real" where
  "available TESTCASE self =
     (let sum_holds = sum_list (map val (pending_checks self));
          avail =
            (if bug TESTCASE BUG_AVAILABLE_BALANCE then
               acct_balance self - min_balance self - sum_holds
             else if bug TESTCASE BUG_MINIMUM_IS_IGNORED then
               acct_balance self - sum_holds
             else
               acct_balance self - max (min_balance self) sum_holds)
      in if avail > 0 then avail else 0)"

definition balance :: "int \<Rightarrow> BankAccount \<Rightarrow> real" where
  "balance TESTCASE self =
     (let hold_amount =
            (if bug TESTCASE BUG_BALANCE_EXCLUDES_HOLDS then
               sum_list (map val (pending_checks self))
             else 0)
      in acct_balance self - hold_amount)"

definition clear_check :: "int \<Rightarrow> Check \<Rightarrow> BankAccount \<Rightarrow> unit outcome \<times> BankAccount" where
  "clear_check TESTCASE check self =
     (if check_in check (pending_checks self) then
        (case list_remove check (pending_checks self) of
           None \<Rightarrow> (Raise (ValueError ''list.remove(x): x not in list''), self)
         | Some rest \<Rightarrow> (Return (), self\<lparr>pending_checks := rest\<rparr>))
      else if \<not> bug TESTCASE BUG_CLEAR_ANY_CHECK then
        (Raise (CheckError (''Check '' @ check_number check @ '' is not an uncleared check'')), self)
      else (Return (), self))"

text \<open>
  \<open>deposit\<close>: the three raises come before the first assignment, so each leaves the
  account as it was. The payee enters the message only where it is a non-empty string.
\<close>

definition deposit_check :: "int \<Rightarrow> Check \<Rightarrow> BankAccount \<Rightarrow> unit outcome \<times> BankAccount" where
  "deposit_check TESTCASE check self =
     (if truthy (payee check) \<and> lower (the (payee check)) \<noteq> lower (account_name self)
         \<and> \<not> bug TESTCASE BUG_DEPOSIT_ANY_PAYEE then
        (Raise (CheckError (''Check payee '' @ the (payee check) @ '' is not account owner'')), self)
      else if check_in check (deposited_checks self) \<and> \<not> bug TESTCASE BUG_DUPLICATE_CHECK then
        (Raise (CheckError ''Check already deposited''), self)
      else
        (Return (),
         self\<lparr>pending_checks := pending_checks self @ [check],
              deposited_checks := deposited_checks self @ [check],
              acct_balance := acct_balance self + val check\<rparr>))"

definition deposit :: "int \<Rightarrow> deposit_arg \<Rightarrow> BankAccount \<Rightarrow> unit outcome \<times> BankAccount" where
  "deposit TESTCASE money self =
     (if arg_value money \<le> 0 \<and> \<not> (arg_value money = 0 \<and> bug TESTCASE BUG_DEPOSIT_ZERO) then
        (Raise (ValueError ''Value to deposit must be positive.''), self)
      else
        (case money of
           IsCheck check \<Rightarrow> deposit_check TESTCASE check self
         | IsMoney m \<Rightarrow> (Return (), self\<lparr>acct_balance := acct_balance self + val m\<rparr>)))"

text \<open>
  \<open>withdraw\<close> returns a Money, or \<open>None\<close> under \<open>BUG_WITHDRAW_FAILS_SILENTLY\<close>. The Money is
  made before the balance is changed.
\<close>

definition withdraw :: "int \<Rightarrow> real \<Rightarrow> BankAccount \<Rightarrow> Money option outcome \<times> BankAccount" where
  "withdraw TESTCASE amount self =
     (if amount \<le> 0 then
        (Raise (ValueError ''Amount to withdraw must be positive''), self)
      else if amount > available TESTCASE self then
        (if bug TESTCASE BUG_WITHDRAW_FAILS_SILENTLY then (Return None, self)
         else (Raise (ValueError ''Amount exceeds available balance''), self))
      else if amount = available TESTCASE self \<and> bug TESTCASE BUG_CANT_WITHDRAW_AVAILABLE then
        (Raise (ValueError ''Amount exceeds available balance''), self)
      else
        (case Money_new amount of
           Raise e \<Rightarrow> (Raise e, self)
         | Return money \<Rightarrow>
             (Return (Some money), self\<lparr>acct_balance := acct_balance self - amount\<rparr>)))"

section \<open>Histories of an account\<close>

text \<open>
  A caller's calls on one account. A call that raises leaves the account as the call left
  it, and the caller can go on using it.
\<close>

datatype operation = Deposit deposit_arg | ClearCheck Check | Withdraw real

fun apply_operation :: "int \<Rightarrow> operation \<Rightarrow> BankAccount \<Rightarrow> BankAccount" where
  "apply_operation TESTCASE (Deposit money) self = snd (deposit TESTCASE money self)"
| "apply_operation TESTCASE (ClearCheck check) self = snd (clear_check TESTCASE check self)"
| "apply_operation TESTCASE (Withdraw amount) self = snd (withdraw TESTCASE amount self)"

definition run :: "int \<Rightarrow> operation list \<Rightarrow> BankAccount \<Rightarrow> BankAccount" where
  "run TESTCASE ops self = fold (apply_operation TESTCASE) ops self"

section \<open>The invariant of an account\<close>

text \<open>
  What \<open>__init__\<close> establishes and every operation keeps when no bug is selected: the
  minimum balance and the balance are not negative, every pending check is a deposited one,
  no check number occurs twice in either list, and every deposited check passed the tests
  of \<open>deposit\<close> on its value and its payee.
\<close>

definition account_ok :: "BankAccount \<Rightarrow> bool" where
  "account_ok self =
     (0 \<le> acct_min_balance self \<and> 0 \<le> acct_balance self \<and>
      set (pending_checks self) \<subseteq> set (deposited_checks self) \<and>
      distinct (map check_number (deposited_checks self)) \<and>
      distinct (map check_number (pending_checks self)) \<and>
      list_all (\<lambda>c. 0 < val c \<and>
                    \<not> (truthy (payee c) \<and> lower (the (payee c)) \<noteq> lower (acct_name self)))
        (deposited_checks self))"

section \<open>Facts about the selector, the queries and the lists\<close>

lemmas bug_constants =
  BUG_CANT_WITHDRAW_AVAILABLE_def BUG_WITHDRAW_FAILS_SILENTLY_def BUG_DEPOSIT_ZERO_def
  BUG_CLEAR_ANY_CHECK_def BUG_DUPLICATE_CHECK_def BUG_DEPOSIT_ANY_PAYEE_def
  BUG_BALANCE_EXCLUDES_HOLDS_def NO_DEFECTS_def BUG_AVAILABLE_BALANCE_def
  BUG_MINIMUM_IS_IGNORED_def

lemma no_defects_bugs:
  assumes "no_defects TESTCASE"
  shows "\<not> bug TESTCASE BUG_CANT_WITHDRAW_AVAILABLE" "\<not> bug TESTCASE BUG_WITHDRAW_FAILS_SILENTLY"
    "\<not> bug TESTCASE BUG_DEPOSIT_ZERO" "\<not> bug TESTCASE BUG_CLEAR_ANY_CHECK"
    "\<not> bug TESTCASE BUG_DUPLICATE_CHECK" "\<not> bug TESTCASE BUG_DEPOSIT_ANY_PAYEE"
    "\<not> bug TESTCASE BUG_BALANCE_EXCLUDES_HOLDS" "\<not> bug TESTCASE BUG_AVAILABLE_BALANCE"
    "\<not> bug TESTCASE BUG_MINIMUM_IS_IGNORED"
  using assms by (simp_all add: no_defects_def)

lemma no_defects_0: "no_defects 0"
  by (simp add: no_defects_def bug_def bug_constants)

lemma available_no_defects:
  "no_defects TESTCASE \<Longrightarrow>
   available TESTCASE self =
     max 0 (acct_balance self - max (acct_min_balance self) (sum_list (map val (pending_checks self))))"
  by (simp add: available_def Let_def min_balance_def no_defects_bugs max_def)

lemma available_nonneg: "0 \<le> available TESTCASE self"
  by (simp add: available_def Let_def)

lemma balance_no_defects: "no_defects TESTCASE \<Longrightarrow> balance TESTCASE self = acct_balance self"
  by (simp add: balance_def no_defects_bugs)

lemma check_in_iff: "check_in c xs \<longleftrightarrow> check_number c \<in> check_number ` set xs"
  unfolding check_in_def check_eq_def list_ex_iff image_iff by metis

lemma list_remove_Some: "check_in c xs \<Longrightarrow> \<exists>ys. list_remove c xs = Some ys"
  by (induction xs) (auto simp: check_in_def)

lemma list_remove_distinct:
  "distinct (map check_number xs) \<Longrightarrow> check_in c xs \<Longrightarrow>
   list_remove c xs = Some (filter (\<lambda>x. \<not> check_eq x c) xs)"
proof (induction xs)
  case Nil
  then show ?case by (simp add: check_in_def)
next
  case (Cons x xs)
  show ?case
  proof (cases "check_eq x c")
    case True
    with Cons.prems(1) have "\<forall>y\<in>set xs. \<not> check_eq y c"
      unfolding check_eq_def by (metis distinct.simps(2) image_eqI list.simps(9) set_map)
    then have "filter (\<lambda>y. \<not> check_eq y c) xs = xs"
      by (simp add: filter_id_conv)
    with True show ?thesis by simp
  next
    case False
    with Cons.prems have "check_in c xs" "distinct (map check_number xs)"
      by (simp_all add: check_in_def)
    with Cons.IH False show ?thesis by simp
  qed
qed

lemma not_check_in_filter: "\<not> check_in c (filter (\<lambda>x. \<not> check_eq x c) xs)"
  by (simp add: check_in_def list_ex_iff)

lemma init_account_ok: "init name min_bal = Return start \<Longrightarrow> account_ok start"
  by (auto simp: init_def account_ok_def split: if_splits)

lemma withdraw_account_ok:
  assumes nd: "no_defects TESTCASE" and ok: "account_ok self"
  shows "account_ok (snd (withdraw TESTCASE amount self))"
proof -
  let ?hold = "max (acct_min_balance self) (sum_list (map val (pending_checks self)))"
  have av: "available TESTCASE self = max 0 (acct_balance self - ?hold)"
    using nd by (rule available_no_defects)
  have "0 \<le> acct_balance self - amount"
    if "0 < amount" "amount \<le> available TESTCASE self"
  proof -
    from that av have "amount \<le> acct_balance self - ?hold" by (simp add: max_def split: if_splits)
    moreover from ok have "0 \<le> ?hold" by (simp add: account_ok_def max_def)
    ultimately show ?thesis by linarith
  qed
  with ok show ?thesis
    by (auto simp: withdraw_def Money_new_def account_ok_def)
qed

lemma clear_check_account_ok:
  assumes ok: "account_ok self"
  shows "account_ok (snd (clear_check TESTCASE check self))"
proof (cases "check_in check (pending_checks self)")
  case True
  from ok have "distinct (map check_number (pending_checks self))"
    by (simp add: account_ok_def)
  from list_remove_distinct [OF this True]
  have "snd (clear_check TESTCASE check self) =
          self\<lparr>pending_checks := filter (\<lambda>x. \<not> check_eq x check) (pending_checks self)\<rparr>"
    using True by (simp add: clear_check_def)
  with ok show ?thesis
    by (auto simp: account_ok_def distinct_map_filter)
next
  case False
  with ok show ?thesis by (simp add: clear_check_def)
qed

lemma deposit_account_ok:
  assumes nd: "no_defects TESTCASE" and ok: "account_ok self"
  shows "account_ok (snd (deposit TESTCASE money self))"
proof (cases money)
  case (IsMoney m)
  with ok nd show ?thesis
    by (auto simp: deposit_def account_ok_def no_defects_bugs)
next
  case (IsCheck c)
  have sub: "check_number ` set (pending_checks self) \<subseteq> check_number ` set (deposited_checks self)"
    using ok by (auto simp: account_ok_def)
  show ?thesis
    using ok nd sub IsCheck
    by (auto simp: deposit_def deposit_check_def account_ok_def no_defects_bugs check_in_iff
        account_name_def)
qed

lemma run_account_ok:
  "no_defects TESTCASE \<Longrightarrow> account_ok self \<Longrightarrow> account_ok (run TESTCASE ops self)"
proof (induction ops arbitrary: self)
  case Nil
  then show ?case by (simp add: run_def)
next
  case (Cons op ops)
  have "account_ok (apply_operation TESTCASE op self)"
    using Cons.prems
    by (cases op) (simp_all add: deposit_account_ok clear_check_account_ok withdraw_account_ok)
  with Cons.IH [OF Cons.prems(1)] show ?case by (simp add: run_def)
qed

section \<open>The claims of the specification\<close>

text \<open>
  The specification describes the account with no bug selected, which is what \<open>TESTCASE\<close>
  gives when the environment variable is unset (0) or set to \<open>NO_DEFECTS\<close>. The theorems
  below therefore assume \<open>no_defects TESTCASE\<close> wherever a selectable bug touches the claim.
\<close>

subsection \<open>C1\<close>



subsection \<open>C2\<close>

text \<open>
  C2. With no bug selected, every account obtained from a fresh one by any sequence of
  \<open>deposit\<close>, \<open>clear_check\<close> and \<open>withdraw\<close> calls, failed ones included, has a balance that is
  not negative, has every pending check among the deposited checks (as checks and as check
  numbers), and has \<open>0 \<le> available \<le> balance\<close>. The sequence is arbitrary, so this is the
  state before and after every call.
\<close>

theorem reachable_invariant:
  assumes "no_defects TESTCASE"
    and "init name min_bal = Return start"
    and "self = run TESTCASE ops start"
  shows "0 \<le> acct_balance self \<and>
         set (pending_checks self) \<subseteq> set (deposited_checks self) \<and>
         check_number ` set (pending_checks self) \<subseteq> check_number ` set (deposited_checks self) \<and>
         0 \<le> available TESTCASE self \<and>
         available TESTCASE self \<le> balance TESTCASE self"
proof -
  have ok: "account_ok self"
    using assms by (simp add: run_account_ok init_account_ok)
  then have sub: "set (pending_checks self) \<subseteq> set (deposited_checks self)"
    and b: "0 \<le> acct_balance self" and m: "0 \<le> acct_min_balance self"
    by (simp_all add: account_ok_def)
  have "available TESTCASE self \<le> acct_balance self"
    using b m by (simp add: available_no_defects [OF assms(1)] max_def)
  then have "available TESTCASE self \<le> balance TESTCASE self"
    by (simp add: balance_no_defects [OF assms(1)])
  with sub b show ?thesis
    by (simp add: available_nonneg image_mono)
qed

text \<open>An instance of C2 at a concrete account.\<close>

theorem reachable_invariant_witness:
  "no_defects 0 \<and>
   init ''Bob'' 50 = Return \<lparr>acct_name = ''Bob'', acct_balance = 0, acct_min_balance = 50, pending_checks = [], deposited_checks = []\<rparr> \<and>
   run 0 [Deposit (IsMoney \<lparr>val = 200\<rparr>), Withdraw 150, Withdraw 1, Deposit (IsCheck \<lparr>val = 100, payee = Some ''BOB'', check_number = ''17''\<rparr>)]
     \<lparr>acct_name = ''Bob'', acct_balance = 0, acct_min_balance = 50, pending_checks = [], deposited_checks = []\<rparr> =
     \<lparr>acct_name = ''Bob'', acct_balance = 150, acct_min_balance = 50, pending_checks = [\<lparr>val = 100, payee = Some ''BOB'', check_number = ''17''\<rparr>], deposited_checks = [\<lparr>val = 100, payee = Some ''BOB'', check_number = ''17''\<rparr>]\<rparr> \<and>
   available 0 \<lparr>acct_name = ''Bob'', acct_balance = 150, acct_min_balance = 50, pending_checks = [\<lparr>val = 100, payee = Some ''BOB'', check_number = ''17''\<rparr>], deposited_checks = [\<lparr>val = 100, payee = Some ''BOB'', check_number = ''17''\<rparr>]\<rparr> = 50 \<and>
   balance 0 \<lparr>acct_name = ''Bob'', acct_balance = 150, acct_min_balance = 50, pending_checks = [\<lparr>val = 100, payee = Some ''BOB'', check_number = ''17''\<rparr>], deposited_checks = [\<lparr>val = 100, payee = Some ''BOB'', check_number = ''17''\<rparr>]\<rparr> = 150"
proof -
  have nd: "no_defects 0"
    by (simp add: no_defects_def bug_def bug_constants)
  have start: "init ''Bob'' 50 = Return \<lparr>acct_name = ''Bob'', acct_balance = 0, acct_min_balance = 50, pending_checks = [], deposited_checks = []\<rparr>"
    by (simp add: init_def)
  have fin: "\<lparr>acct_name = ''Bob'', acct_balance = 150, acct_min_balance = 50, pending_checks = [\<lparr>val = 100, payee = Some ''BOB'', check_number = ''17''\<rparr>], deposited_checks = [\<lparr>val = 100, payee = Some ''BOB'', check_number = ''17''\<rparr>]\<rparr> =
      run 0 [Deposit (IsMoney \<lparr>val = 200\<rparr>), Withdraw 150, Withdraw 1, Deposit (IsCheck \<lparr>val = 100, payee = Some ''BOB'', check_number = ''17''\<rparr>)]
        \<lparr>acct_name = ''Bob'', acct_balance = 0, acct_min_balance = 50, pending_checks = [], deposited_checks = []\<rparr>"
    by (simp add: run_def deposit_def deposit_check_def clear_check_def withdraw_def Money_new_def available_def balance_def min_balance_def account_name_def check_in_def check_eq_def lower_def lower_char_def no_defects_def bug_def bug_constants)
  from reachable_invariant [OF nd start fin]
  have "0 \<le> available 0 \<lparr>acct_name = ''Bob'', acct_balance = 150, acct_min_balance = 50, pending_checks = [\<lparr>val = 100, payee = Some ''BOB'', check_number = ''17''\<rparr>], deposited_checks = [\<lparr>val = 100, payee = Some ''BOB'', check_number = ''17''\<rparr>]\<rparr> \<and>
        available 0 \<lparr>acct_name = ''Bob'', acct_balance = 150, acct_min_balance = 50, pending_checks = [\<lparr>val = 100, payee = Some ''BOB'', check_number = ''17''\<rparr>], deposited_checks = [\<lparr>val = 100, payee = Some ''BOB'', check_number = ''17''\<rparr>]\<rparr> \<le> balance 0 \<lparr>acct_name = ''Bob'', acct_balance = 150, acct_min_balance = 50, pending_checks = [\<lparr>val = 100, payee = Some ''BOB'', check_number = ''17''\<rparr>], deposited_checks = [\<lparr>val = 100, payee = Some ''BOB'', check_number = ''17''\<rparr>]\<rparr>"
    by simp
  then show ?thesis
    using nd start fin [symmetric]
    by (simp add: available_def balance_def min_balance_def bug_def bug_constants)
qed

subsection \<open>C3\<close>



subsection \<open>C4\<close>



subsection \<open>C5\<close>



subsection \<open>C6\<close>

text \<open>
  C6. With no bug selected, in every account obtained from a fresh one, depositing a check that
  is among the deposited checks, pending or cleared, raises the CheckError "Check already
  deposited" and leaves the account as it was. More generally, any check of positive value
  that carries the number of a deposited check is refused with a CheckError, the account
  unchanged.
\<close>

theorem deposit_twice_rejected:
  assumes "no_defects TESTCASE"
    and "init name min_bal = Return start"
    and "self = run TESTCASE ops start"
  shows "(check \<in> set (deposited_checks self) \<longrightarrow>
            deposit TESTCASE (IsCheck check) self =
              (Raise (CheckError ''Check already deposited''), self)) \<and>
         (0 < val check \<and> check_in check (deposited_checks self) \<longrightarrow>
            (\<exists>msg. deposit TESTCASE (IsCheck check) self = (Raise (CheckError msg), self)))"
proof -
  have ok: "account_ok self"
    using assms by (simp add: run_account_ok init_account_ok)
  have "deposit TESTCASE (IsCheck check) self =
          (Raise (CheckError ''Check already deposited''), self)"
    if "check \<in> set (deposited_checks self)"
  proof -
    from ok that have "0 < val check"
      and "\<not> (truthy (payee check) \<and> lower (the (payee check)) \<noteq> lower (acct_name self))"
      by (auto simp: account_ok_def list_all_iff)
    moreover from that have "check_in check (deposited_checks self)"
      by (auto simp: check_in_iff)
    ultimately show ?thesis
      using assms(1)
      by (simp add: deposit_def deposit_check_def account_name_def no_defects_bugs)
  qed
  moreover have "\<exists>msg. deposit TESTCASE (IsCheck check) self = (Raise (CheckError msg), self)"
    if "0 < val check" "check_in check (deposited_checks self)"
    using that assms(1) by (simp add: deposit_def deposit_check_def no_defects_bugs)
  ultimately show ?thesis by blast
qed

text \<open>An instance of C6 at a concrete account.\<close>

theorem deposit_twice_rejected_witness:
  "no_defects 0 \<and>
   init ''Bob'' 0 = Return \<lparr>acct_name = ''Bob'', acct_balance = 0, acct_min_balance = 0,
       pending_checks = [],
       deposited_checks = []\<rparr> \<and>
   run 0 [Deposit (IsCheck \<lparr>val = 100, payee = Some ''BOB'', check_number = ''17''\<rparr>), ClearCheck \<lparr>val = 100, payee = Some ''BOB'', check_number = ''17''\<rparr>]
     \<lparr>acct_name = ''Bob'', acct_balance = 0, acct_min_balance = 0,
       pending_checks = [],
       deposited_checks = []\<rparr> =
     \<lparr>acct_name = ''Bob'', acct_balance = 100, acct_min_balance = 0,
       pending_checks = [],
       deposited_checks = [\<lparr>val = 100, payee = Some ''BOB'', check_number = ''17''\<rparr>]\<rparr> \<and>
   deposit 0 (IsCheck \<lparr>val = 100, payee = Some ''BOB'', check_number = ''17''\<rparr>)
     \<lparr>acct_name = ''Bob'', acct_balance = 100, acct_min_balance = 0,
       pending_checks = [],
       deposited_checks = [\<lparr>val = 100, payee = Some ''BOB'', check_number = ''17''\<rparr>]\<rparr> =
     (Raise (CheckError ''Check already deposited''),
      \<lparr>acct_name = ''Bob'', acct_balance = 100, acct_min_balance = 0,
       pending_checks = [],
       deposited_checks = [\<lparr>val = 100, payee = Some ''BOB'', check_number = ''17''\<rparr>]\<rparr>) \<and>
   (\<exists>msg. deposit 0 (IsCheck \<lparr>val = 5, payee = Some ''Alice'', check_number = ''17''\<rparr>)
     \<lparr>acct_name = ''Bob'', acct_balance = 100, acct_min_balance = 0,
       pending_checks = [],
       deposited_checks = [\<lparr>val = 100, payee = Some ''BOB'', check_number = ''17''\<rparr>]\<rparr> =
     (Raise (CheckError msg),
      \<lparr>acct_name = ''Bob'', acct_balance = 100, acct_min_balance = 0,
       pending_checks = [],
       deposited_checks = [\<lparr>val = 100, payee = Some ''BOB'', check_number = ''17''\<rparr>]\<rparr>))"
proof -
  have nd: "no_defects 0"
    by (simp add: no_defects_def bug_def bug_constants)
  have start: "init ''Bob'' 0 = Return \<lparr>acct_name = ''Bob'', acct_balance = 0, acct_min_balance = 0,
       pending_checks = [],
       deposited_checks = []\<rparr>"
    by (simp add: init_def)
  have fin: "run 0 [Deposit (IsCheck \<lparr>val = 100, payee = Some ''BOB'', check_number = ''17''\<rparr>), ClearCheck \<lparr>val = 100, payee = Some ''BOB'', check_number = ''17''\<rparr>]
     \<lparr>acct_name = ''Bob'', acct_balance = 0, acct_min_balance = 0,
       pending_checks = [],
       deposited_checks = []\<rparr> =
     \<lparr>acct_name = ''Bob'', acct_balance = 100, acct_min_balance = 0,
       pending_checks = [],
       deposited_checks = [\<lparr>val = 100, payee = Some ''BOB'', check_number = ''17''\<rparr>]\<rparr>"
    by (simp add: run_def deposit_def deposit_check_def clear_check_def withdraw_def Money_new_def
        available_def balance_def min_balance_def account_name_def check_in_def check_eq_def
        lower_def lower_char_def no_defects_def bug_def bug_constants)
  from deposit_twice_rejected [OF nd start fin [symmetric], of "\<lparr>val = 100, payee = Some ''BOB'', check_number = ''17''\<rparr>"]
    deposit_twice_rejected [OF nd start fin [symmetric], of "\<lparr>val = 5, payee = Some ''Alice'', check_number = ''17''\<rparr>"]
    nd start fin
  show ?thesis
    by (simp add: check_in_def check_eq_def)
qed

subsection \<open>C7\<close>



subsection \<open>C8\<close>

text \<open>
  C8. With no bug selected, in every account obtained from a fresh one: clearing a pending check
  returns, takes the check out of the pending checks and changes nothing else (balance and
  deposited checks are as before), after which the check is no longer pending and clearing
  it again raises CheckError; clearing a check that is not pending raises the CheckError
  "Check ... is not an uncleared check" and leaves the account as it was.
\<close>

theorem clear_check_cases:
  assumes "no_defects TESTCASE"
    and "init name min_bal = Return start"
    and "self = run TESTCASE ops start"
  shows "(check_in check (pending_checks self) \<longrightarrow>
            clear_check TESTCASE check self =
              (Return (),
               self\<lparr>pending_checks := filter (\<lambda>x. \<not> check_eq x check) (pending_checks self)\<rparr>) \<and>
            \<not> check_in check (pending_checks (snd (clear_check TESTCASE check self))) \<and>
            acct_balance (snd (clear_check TESTCASE check self)) = acct_balance self \<and>
            deposited_checks (snd (clear_check TESTCASE check self)) = deposited_checks self \<and>
            clear_check TESTCASE check (snd (clear_check TESTCASE check self)) =
              (Raise (CheckError (''Check '' @ check_number check @ '' is not an uncleared check'')),
               snd (clear_check TESTCASE check self))) \<and>
         (\<not> check_in check (pending_checks self) \<longrightarrow>
            clear_check TESTCASE check self =
              (Raise (CheckError (''Check '' @ check_number check @ '' is not an uncleared check'')),
               self))"
proof -
  have "account_ok self"
    using assms by (simp add: run_account_ok init_account_ok)
  then have d: "distinct (map check_number (pending_checks self))"
    by (simp add: account_ok_def)
  have absent: "clear_check TESTCASE check acct =
      (Raise (CheckError (''Check '' @ check_number check @ '' is not an uncleared check'')), acct)"
    if "\<not> check_in check (pending_checks acct)" for acct
    using that assms(1) by (simp add: clear_check_def no_defects_bugs)
  have present: "clear_check TESTCASE check self =
      (Return (),
       self\<lparr>pending_checks := filter (\<lambda>x. \<not> check_eq x check) (pending_checks self)\<rparr>)"
    if "check_in check (pending_checks self)"
    using that list_remove_distinct [OF d that] by (simp add: clear_check_def)
  show ?thesis
  proof (cases "check_in check (pending_checks self)")
    case True
    note p = present [OF True]
    have "\<not> check_in check (pending_checks (snd (clear_check TESTCASE check self)))"
      by (simp add: p not_check_in_filter)
    from absent [OF this] this True p show ?thesis by simp
  next
    case False
    with absent [OF False] show ?thesis by simp
  qed
qed

text \<open>An instance of C8 at a concrete account.\<close>

theorem clear_check_cases_witness:
  "no_defects 0 \<and>
   init ''Bob'' 0 = Return \<lparr>acct_name = ''Bob'', acct_balance = 0, acct_min_balance = 0,
       pending_checks = [],
       deposited_checks = []\<rparr> \<and>
   run 0 [Deposit (IsCheck \<lparr>val = 100, payee = Some ''BOB'', check_number = ''17''\<rparr>)]
     \<lparr>acct_name = ''Bob'', acct_balance = 0, acct_min_balance = 0,
       pending_checks = [],
       deposited_checks = []\<rparr> =
     \<lparr>acct_name = ''Bob'', acct_balance = 100, acct_min_balance = 0,
       pending_checks = [\<lparr>val = 100, payee = Some ''BOB'', check_number = ''17''\<rparr>],
       deposited_checks = [\<lparr>val = 100, payee = Some ''BOB'', check_number = ''17''\<rparr>]\<rparr> \<and>
   clear_check 0 \<lparr>val = 100, payee = Some ''BOB'', check_number = ''17''\<rparr>
     \<lparr>acct_name = ''Bob'', acct_balance = 100, acct_min_balance = 0,
       pending_checks = [\<lparr>val = 100, payee = Some ''BOB'', check_number = ''17''\<rparr>],
       deposited_checks = [\<lparr>val = 100, payee = Some ''BOB'', check_number = ''17''\<rparr>]\<rparr> =
     (Return (),
      \<lparr>acct_name = ''Bob'', acct_balance = 100, acct_min_balance = 0,
       pending_checks = [],
       deposited_checks = [\<lparr>val = 100, payee = Some ''BOB'', check_number = ''17''\<rparr>]\<rparr>) \<and>
   clear_check 0 \<lparr>val = 100, payee = Some ''BOB'', check_number = ''17''\<rparr>
     \<lparr>acct_name = ''Bob'', acct_balance = 100, acct_min_balance = 0,
       pending_checks = [],
       deposited_checks = [\<lparr>val = 100, payee = Some ''BOB'', check_number = ''17''\<rparr>]\<rparr> =
     (Raise (CheckError ''Check 17 is not an uncleared check''),
      \<lparr>acct_name = ''Bob'', acct_balance = 100, acct_min_balance = 0,
       pending_checks = [],
       deposited_checks = [\<lparr>val = 100, payee = Some ''BOB'', check_number = ''17''\<rparr>]\<rparr>) \<and>
   clear_check 0 \<lparr>val = 40, payee = None, check_number = ''19''\<rparr>
     \<lparr>acct_name = ''Bob'', acct_balance = 100, acct_min_balance = 0,
       pending_checks = [\<lparr>val = 100, payee = Some ''BOB'', check_number = ''17''\<rparr>],
       deposited_checks = [\<lparr>val = 100, payee = Some ''BOB'', check_number = ''17''\<rparr>]\<rparr> =
     (Raise (CheckError ''Check 19 is not an uncleared check''),
      \<lparr>acct_name = ''Bob'', acct_balance = 100, acct_min_balance = 0,
       pending_checks = [\<lparr>val = 100, payee = Some ''BOB'', check_number = ''17''\<rparr>],
       deposited_checks = [\<lparr>val = 100, payee = Some ''BOB'', check_number = ''17''\<rparr>]\<rparr>)"
proof -
  have nd: "no_defects 0"
    by (simp add: no_defects_def bug_def bug_constants)
  have start: "init ''Bob'' 0 = Return \<lparr>acct_name = ''Bob'', acct_balance = 0, acct_min_balance = 0,
       pending_checks = [],
       deposited_checks = []\<rparr>"
    by (simp add: init_def)
  have fin: "run 0 [Deposit (IsCheck \<lparr>val = 100, payee = Some ''BOB'', check_number = ''17''\<rparr>)]
     \<lparr>acct_name = ''Bob'', acct_balance = 0, acct_min_balance = 0,
       pending_checks = [],
       deposited_checks = []\<rparr> =
     \<lparr>acct_name = ''Bob'', acct_balance = 100, acct_min_balance = 0,
       pending_checks = [\<lparr>val = 100, payee = Some ''BOB'', check_number = ''17''\<rparr>],
       deposited_checks = [\<lparr>val = 100, payee = Some ''BOB'', check_number = ''17''\<rparr>]\<rparr>"
    by (simp add: run_def deposit_def deposit_check_def clear_check_def withdraw_def Money_new_def
        available_def balance_def min_balance_def account_name_def check_in_def check_eq_def
        lower_def lower_char_def no_defects_def bug_def bug_constants)
  from clear_check_cases [OF nd start fin [symmetric], of "\<lparr>val = 100, payee = Some ''BOB'', check_number = ''17''\<rparr>"]
    clear_check_cases [OF nd start fin [symmetric], of "\<lparr>val = 40, payee = None, check_number = ''19''\<rparr>"]
    nd start fin
  show ?thesis
    by (auto simp: check_in_def check_eq_def)
qed

subsection \<open>C9\<close>

text \<open>
  C9. Whatever \<open>TESTCASE\<close> is and whether the call returns or raises: \<open>withdraw\<close> leaves the
  pending checks, the deposited checks, the minimum balance and the owner's name as they
  were (the account differs from the old one in its balance at most), and \<open>clear_check\<close>
  leaves the minimum balance, the owner's name and the deposited checks as they were.
\<close>

theorem withdraw_clear_check_frame:
  "pending_checks (snd (withdraw TESTCASE amount self)) = pending_checks self \<and>
   deposited_checks (snd (withdraw TESTCASE amount self)) = deposited_checks self \<and>
   min_balance (snd (withdraw TESTCASE amount self)) = min_balance self \<and>
   account_name (snd (withdraw TESTCASE amount self)) = account_name self \<and>
   snd (withdraw TESTCASE amount self) =
     self\<lparr>acct_balance := acct_balance (snd (withdraw TESTCASE amount self))\<rparr> \<and>
   min_balance (snd (clear_check TESTCASE check self)) = min_balance self \<and>
   account_name (snd (clear_check TESTCASE check self)) = account_name self \<and>
   deposited_checks (snd (clear_check TESTCASE check self)) = deposited_checks self"
  by (simp add: withdraw_def clear_check_def min_balance_def account_name_def Money_new_def
      split: option.split)

subsection \<open>C10\<close>

text \<open>
  C10. With no bug selected, in every account obtained from a fresh one by any sequence of
  calls, no check number occurs twice among the pending checks and none occurs twice among
  the deposited checks, although both are Python lists.
\<close>

theorem check_numbers_distinct:
  assumes "no_defects TESTCASE"
    and "init name min_bal = Return start"
    and "self = run TESTCASE ops start"
  shows "distinct (map check_number (pending_checks self)) \<and>
         distinct (map check_number (deposited_checks self))"
proof -
  have "account_ok self"
    using assms by (simp add: run_account_ok init_account_ok)
  then show ?thesis by (simp add: account_ok_def)
qed

text \<open>An instance of C10 at a concrete account.\<close>

theorem check_numbers_distinct_witness:
  "no_defects 0 \<and>
   init ''Bob'' 0 = Return \<lparr>acct_name = ''Bob'', acct_balance = 0, acct_min_balance = 0,
       pending_checks = [],
       deposited_checks = []\<rparr> \<and>
   run 0 [Deposit (IsCheck \<lparr>val = 100, payee = Some ''BOB'', check_number = ''17''\<rparr>), Deposit (IsCheck \<lparr>val = 100, payee = Some ''BOB'', check_number = ''17''\<rparr>),
          Deposit (IsCheck \<lparr>val = 40, payee = None, check_number = ''19''\<rparr>), ClearCheck \<lparr>val = 100, payee = Some ''BOB'', check_number = ''17''\<rparr>,
          Deposit (IsCheck \<lparr>val = 100, payee = Some ''BOB'', check_number = ''17''\<rparr>)]
     \<lparr>acct_name = ''Bob'', acct_balance = 0, acct_min_balance = 0,
       pending_checks = [],
       deposited_checks = []\<rparr> =
     \<lparr>acct_name = ''Bob'', acct_balance = 140, acct_min_balance = 0,
       pending_checks = [\<lparr>val = 40, payee = None, check_number = ''19''\<rparr>],
       deposited_checks = [\<lparr>val = 100, payee = Some ''BOB'', check_number = ''17''\<rparr>, \<lparr>val = 40, payee = None, check_number = ''19''\<rparr>]\<rparr> \<and>
   distinct (map check_number (pending_checks
     \<lparr>acct_name = ''Bob'', acct_balance = 140, acct_min_balance = 0,
       pending_checks = [\<lparr>val = 40, payee = None, check_number = ''19''\<rparr>],
       deposited_checks = [\<lparr>val = 100, payee = Some ''BOB'', check_number = ''17''\<rparr>, \<lparr>val = 40, payee = None, check_number = ''19''\<rparr>]\<rparr>)) \<and>
   distinct (map check_number (deposited_checks
     \<lparr>acct_name = ''Bob'', acct_balance = 140, acct_min_balance = 0,
       pending_checks = [\<lparr>val = 40, payee = None, check_number = ''19''\<rparr>],
       deposited_checks = [\<lparr>val = 100, payee = Some ''BOB'', check_number = ''17''\<rparr>, \<lparr>val = 40, payee = None, check_number = ''19''\<rparr>]\<rparr>))"
proof -
  have nd: "no_defects 0"
    by (simp add: no_defects_def bug_def bug_constants)
  have start: "init ''Bob'' 0 = Return \<lparr>acct_name = ''Bob'', acct_balance = 0, acct_min_balance = 0,
       pending_checks = [],
       deposited_checks = []\<rparr>"
    by (simp add: init_def)
  have fin: "run 0 [Deposit (IsCheck \<lparr>val = 100, payee = Some ''BOB'', check_number = ''17''\<rparr>), Deposit (IsCheck \<lparr>val = 100, payee = Some ''BOB'', check_number = ''17''\<rparr>),
          Deposit (IsCheck \<lparr>val = 40, payee = None, check_number = ''19''\<rparr>), ClearCheck \<lparr>val = 100, payee = Some ''BOB'', check_number = ''17''\<rparr>,
          Deposit (IsCheck \<lparr>val = 100, payee = Some ''BOB'', check_number = ''17''\<rparr>)]
     \<lparr>acct_name = ''Bob'', acct_balance = 0, acct_min_balance = 0,
       pending_checks = [],
       deposited_checks = []\<rparr> =
     \<lparr>acct_name = ''Bob'', acct_balance = 140, acct_min_balance = 0,
       pending_checks = [\<lparr>val = 40, payee = None, check_number = ''19''\<rparr>],
       deposited_checks = [\<lparr>val = 100, payee = Some ''BOB'', check_number = ''17''\<rparr>, \<lparr>val = 40, payee = None, check_number = ''19''\<rparr>]\<rparr>"
    by (simp add: run_def deposit_def deposit_check_def clear_check_def withdraw_def Money_new_def
        available_def balance_def min_balance_def account_name_def check_in_def check_eq_def
        lower_def lower_char_def no_defects_def bug_def bug_constants)
  from check_numbers_distinct [OF nd start fin [symmetric]] nd start fin
  show ?thesis
    by simp
qed

end
